theory Spec2Isabelle
  imports Complex_Main "HOL-Library.Finite_Map"
begin

section \<open>Statements of the condition engine (redengine/core/condition/statement.py)\<close>

subsection \<open>Python values\<close>

text \<open>
  The values that travel through a statement: positional and keyword arguments, the
  operands of the relational operators, the endpoints of a period's interval.
  A finite float is represented by its exact value, which is all that Python's comparisons
  between numbers look at (an int and a float are compared exactly, not after rounding).
  \<open>PRef\<close> is a reference to an object of a class that defines no equality of its
  own (a task): two such objects are equal when they are the same object. \<open>PStmt\<close>
  is a reference to a statement of the heap below.
\<close>

datatype pyval =
    PNone
  | PBool bool
  | PInt int
  | PFloat rat
  | PStr string
  | PList "pyval list"
  | PDatetime int
  | PRef nat
  | PStmt nat

text \<open>A dict with string keys, as \<open>**kwargs\<close> collects it: a finite map.\<close>

type_synonym pydict = "(string, pyval) fmap"

text \<open>
  What \<open>observe\<close> may return, after the docstring of \<open>Comparable\<close>: a boolean, an
  int or a float, or an iterable whose length is inspected (an object with \<open>__len__\<close>,
  given by its elements).
\<close>

datatype observation =
    ObsBool bool
  | ObsInt int
  | ObsFloat rat
  | ObsSized "pyval list"

text \<open>The number left once \<open>len\<close> has been taken: an int or a float.\<close>

datatype scalar = SInt int | SFloat rat

text \<open>
  A rich-comparison method called directly (\<open>getattr(res, "__lt__")(val)\<close>) returns a
  boolean, or the constant \<open>NotImplemented\<close> when the receiver's type does not know the
  operand's type.
\<close>

datatype cmp_result = Truth bool | NotImplemented

datatype relop = Eq | Ne | Lt | Gt | Le | Ge

fun relop_key :: "relop \<Rightarrow> string" where
  "relop_key Eq = ''_eq_''"
| "relop_key Ne = ''_ne_''"
| "relop_key Lt = ''_lt_''"
| "relop_key Gt = ''_gt_''"
| "relop_key Le = ''_le_''"
| "relop_key Ge = ''_ge_''"

text \<open>The tuple \<open>("_eq_", "_ne_", "_lt_", "_gt_", "_le_", "_ge_")\<close>, in its order.\<close>

definition relops :: "relop list" where
  "relops = [Eq, Ne, Lt, Gt, Le, Ge]"

fun compare :: "relop \<Rightarrow> 'a::linorder \<Rightarrow> 'a \<Rightarrow> bool" where
  "compare Eq x y = (x = y)"
| "compare Ne x y = (x \<noteq> y)"
| "compare Lt x y = (x < y)"
| "compare Gt x y = (x > y)"
| "compare Le x y = (x \<le> y)"
| "compare Ge x y = (x \<ge> y)"

text \<open>\<open>bool\<close> is a subclass of \<open>int\<close>: \<open>True\<close> counts as 1 wherever an int does.\<close>

definition int_of_bool :: "bool \<Rightarrow> int" where
  "int_of_bool b = (if b then 1 else 0)"

text \<open>
  \<open>int.__op__(val)\<close>: defined for an int operand (a bool included), \<open>NotImplemented\<close>
  for every other type, a float among them.
\<close>

fun int_dunder :: "relop \<Rightarrow> int \<Rightarrow> pyval \<Rightarrow> cmp_result" where
  "int_dunder op n (PInt m) = Truth (compare op n m)"
| "int_dunder op n (PBool b) = Truth (compare op n (int_of_bool b))"
| "int_dunder op n _ = NotImplemented"

text \<open>\<open>float.__op__(val)\<close>: defined for a float or an int operand, exactly.\<close>

fun float_dunder :: "relop \<Rightarrow> rat \<Rightarrow> pyval \<Rightarrow> cmp_result" where
  "float_dunder op q (PFloat r) = Truth (compare op q r)"
| "float_dunder op q (PInt m) = Truth (compare op q (of_int m))"
| "float_dunder op q (PBool b) = Truth (compare op q (of_int (int_of_bool b)))"
| "float_dunder op q _ = NotImplemented"

fun dunder :: "relop \<Rightarrow> scalar \<Rightarrow> pyval \<Rightarrow> cmp_result" where
  "dunder op (SInt n) v = int_dunder op n v"
| "dunder op (SFloat q) v = float_dunder op q v"

text \<open>
  The truth value \<open>all(...)\<close> takes of each item: \<open>NotImplemented\<close> is an ordinary
  object and counts as true (with a deprecation warning from Python 3.9 on).
\<close>

fun truthy :: "cmp_result \<Rightarrow> bool" where
  "truthy (Truth b) = b"
| "truthy NotImplemented = True"

text \<open>\<open>res > 0\<close> on a number, through the operator.\<close>

fun positive :: "scalar \<Rightarrow> bool" where
  "positive (SInt n) = (n > 0)"
| "positive (SFloat q) = (q > 0)"

subsection \<open>\<open>_to_bool\<close>\<close>

text \<open>\<open>Statement._to_bool\<close>: \<open>bool(res)\<close>.\<close>

fun Statement_to_bool :: "observation \<Rightarrow> bool" where
  "Statement_to_bool (ObsBool b) = b"
| "Statement_to_bool (ObsInt n) = (n \<noteq> 0)"
| "Statement_to_bool (ObsFloat q) = (q \<noteq> 0)"
| "Statement_to_bool (ObsSized xs) = (xs \<noteq> [])"

text \<open>\<open>len(res) if hasattr(res, "__len__") else res\<close>, for a result that is not a bool.\<close>

fun to_scalar :: "observation \<Rightarrow> scalar" where
  "to_scalar (ObsSized xs) = SInt (int (length xs))"
| "to_scalar (ObsInt n) = SInt n"
| "to_scalar (ObsFloat q) = SFloat q"
| "to_scalar (ObsBool b) = SInt (int_of_bool b)"

text \<open>
  The dict \<open>comps\<close>: one entry per operator key present in the statement's kwargs, in the
  order of the tuple.
\<close>

definition comps :: "pydict \<Rightarrow> (relop \<times> pyval) list" where
  "comps kw = List.map_filter (\<lambda>op. map_option (Pair op) (fmlookup kw (relop_key op))) relops"

text \<open>\<open>Comparable._to_bool\<close>, with the statement's kwargs.\<close>

definition Comparable_to_bool :: "pydict \<Rightarrow> observation \<Rightarrow> bool" where
  "Comparable_to_bool kw res =
     (case res of
        ObsBool b \<Rightarrow> Statement_to_bool res
      | _ \<Rightarrow>
          (let s = to_scalar res; cs = comps kw
           in if cs = [] then positive s
              else list_all (\<lambda>(op, val). truthy (dunder op s val)) cs))"

subsection \<open>The value of a number\<close>

text \<open>A bool, an int and a float as the number they stand for; no other value is one.\<close>

fun num_of :: "pyval \<Rightarrow> rat option" where
  "num_of (PBool b) = Some (of_int (int_of_bool b))"
| "num_of (PInt n) = Some (of_int n)"
| "num_of (PFloat q) = Some q"
| "num_of _ = None"

subsection \<open>Exceptions, the session and the log\<close>

text \<open>
  An exception is given by its class. \<open>KeyboardInterrupt\<close> and \<open>SystemExit\<close> derive
  from \<open>BaseException\<close> only; \<open>ModuleNotFoundError\<close> derives from \<open>ImportError\<close>;
  \<open>UserError\<close> stands for any other class deriving from \<open>Exception\<close>.
\<close>

datatype exc =
    KeyboardInterrupt
  | SystemExit
  | ImportError
  | ModuleNotFoundError
  | TypeError
  | ValueError
  | KeyError
  | UserError string

text \<open>What \<open>except (KeyboardInterrupt, ImportError)\<close> catches.\<close>

fun let_through :: "exc \<Rightarrow> bool" where
  "let_through KeyboardInterrupt = True"
| "let_through ImportError = True"
| "let_through ModuleNotFoundError = True"
| "let_through _ = False"

text \<open>What \<open>except Exception\<close> catches.\<close>

fun is_Exception :: "exc \<Rightarrow> bool" where
  "is_Exception KeyboardInterrupt = False"
| "is_Exception SystemExit = False"
| "is_Exception _ = True"

text \<open>
  Modelled from the spec: the session, which \<open>statement.py\<close> reaches as \<open>self.session\<close>
  and whose class is not among the sources. \<open>parameters\<close> is a mapping from name to value;
  \<open>parameters | kwargs\<close> is the union of the two mappings in which the entries of the
  right operand win, as for Python's dicts. \<open>debug\<close> is \<open>config["debug"]\<close>.
\<close>

record session =
  parameters :: pydict
  debug :: bool

datatype level = DEBUG | INFO | WARNING | ERROR | CRITICAL

text \<open>A record of the logger: \<open>logger.exception\<close> writes at level \<open>ERROR\<close> with the exception attached.\<close>

record log_record =
  levelname :: level
  msg :: string
  exc_info :: exc

subsection \<open>Classes and objects\<close>

text \<open>
  A statement class as \<open>type(name, bases, attrs)\<close> builds it: the identity of the class
  object, its name, the identities of its proper ancestors in method resolution order, and
  the attributes \<open>name\<close>, \<open>_use_global_params\<close> and \<open>observe\<close> as lookup finds them.
  \<open>observe\<close> is \<open>staticmethod(func)\<close> for any function \<open>func\<close>: besides the
  arguments of its call such a function can read the session, which every condition
  class reaches as \<open>session\<close>; the model hands it the session as its first argument.
\<close>

record pyclass =
  cls_id :: nat
  cls_name :: string
  mro_tail :: "nat list"
  name_attr :: "string option"
  use_global_params :: bool
  observe :: "session \<Rightarrow> pyval list \<Rightarrow> pydict \<Rightarrow> exc + observation"

definition Statement_id :: nat where "Statement_id = 0"
definition Comparable_id :: nat where "Comparable_id = 1"
definition Historical_id :: nat where "Historical_id = 2"

text \<open>The three classes of the module. \<open>Statement.observe\<close> returns \<open>True\<close>.\<close>

definition Statement_cls :: pyclass where
  "Statement_cls = \<lparr>cls_id = Statement_id, cls_name = ''Statement'', mro_tail = [],
     name_attr = None, use_global_params = False, observe = (\<lambda>_ _ _. Inr (ObsBool True))\<rparr>"

definition Comparable_cls :: pyclass where
  "Comparable_cls = Statement_cls\<lparr>cls_id := Comparable_id, cls_name := ''Comparable'',
     mro_tail := [Statement_id]\<rparr>"

definition Historical_cls :: pyclass where
  "Historical_cls = Statement_cls\<lparr>cls_id := Historical_id, cls_name := ''Historical'',
     mro_tail := [Statement_id]\<rparr>"

text \<open>
  \<open>Statement.from_func(func, historical=..., quantitative=..., use_globals=...)\<close>, called
  on \<open>Statement\<close> itself: the bases are \<open>Historical\<close> (if historical), \<open>Comparable\<close>
  (if quantitative) and \<open>Statement\<close>. \<open>i\<close> is the identity of the new class object.
\<close>

definition from_func :: "nat \<Rightarrow> string \<Rightarrow> (session \<Rightarrow> pyval list \<Rightarrow> pydict \<Rightarrow> exc + observation)
    \<Rightarrow> bool \<Rightarrow> bool \<Rightarrow> bool \<Rightarrow> pyclass" where
  "from_func i name func historical quantitative use_globals =
     \<lparr>cls_id = i, cls_name = name,
      mro_tail = (if historical then [Historical_id] else [])
               @ (if quantitative then [Comparable_id] else [])
               @ [Statement_id],
      name_attr = None, use_global_params = use_globals, observe = func\<rparr>"

definition mro :: "pyclass \<Rightarrow> nat list" where
  "mro c = cls_id c # mro_tail c"

text \<open>\<open>issubclass(c, d)\<close>, with \<open>d\<close> given by its identity.\<close>

definition issubclass :: "pyclass \<Rightarrow> nat \<Rightarrow> bool" where
  "issubclass c d = (d \<in> set (mro c))"

text \<open>
  A statement object: its class and its attributes. \<open>kwargs\<close> holds a reference to a
  dict object, since the dict is updated in place; \<open>args\<close> is a tuple, which nothing can
  update. \<open>period\<close> is the attribute \<open>Historical.__init__\<close> sets.
\<close>

record 'p statement =
  stmt_class :: pyclass
  args :: "pyval list"
  kwargs :: nat
  period :: "'p option"

text \<open>The heap: the statement objects and the dict objects, each found by its address.\<close>

record 'p heap =
  stmts :: "'p statement list"
  dicts :: "pydict list"

definition allocated :: "'p heap \<Rightarrow> nat \<Rightarrow> bool" where
  "allocated h r = (r < length (stmts h) \<and> kwargs (stmts h ! r) < length (dicts h))"

subsection \<open>Construction, \<open>set_params\<close> and \<open>copy\<close>\<close>

text \<open>
  \<open>Statement.__init__\<close> and \<open>Historical.__init__\<close>: the new object and the dict
  that collected its keyword arguments are allocated; the result is the object's address.
\<close>

definition Historical_init :: "pyclass \<Rightarrow> pyval list \<Rightarrow> 'p option \<Rightarrow> pydict \<Rightarrow> 'p heap
    \<Rightarrow> nat \<times> 'p heap" where
  "Historical_init c as p kw h =
     (length (stmts h),
      h\<lparr>stmts := stmts h @ [\<lparr>stmt_class = c, args = as, kwargs = length (dicts h), period = p\<rparr>],
        dicts := dicts h @ [kw]\<rparr>)"

definition Statement_init :: "pyclass \<Rightarrow> pyval list \<Rightarrow> pydict \<Rightarrow> 'p heap \<Rightarrow> nat \<times> 'p heap" where
  "Statement_init c as kw h = Historical_init c as None kw h"

text \<open>
  \<open>set_params\<close>: \<open>self.args\<close> is rebound to the longer tuple, the dict behind
  \<open>self.kwargs\<close> is updated in place.
\<close>

definition set_params :: "nat \<Rightarrow> pyval list \<Rightarrow> pydict \<Rightarrow> 'p heap \<Rightarrow> 'p heap" where
  "set_params r as kw h =
     (let s = stmts h ! r
      in h\<lparr>stmts := (stmts h)[r := s\<lparr>args := args s @ as\<rparr>],
           dicts := (dicts h)[kwargs s := (dicts h ! kwargs s) ++\<^sub>f kw]\<rparr>)"

text \<open>
  \<open>copy\<close>: a shallow copy of the object, whose \<open>kwargs\<close> is then rebound to a copy of
  the dict (the copy of the tuple is the tuple).
\<close>

definition copy :: "nat \<Rightarrow> 'p heap \<Rightarrow> nat \<times> 'p heap" where
  "copy r h =
     (let s = stmts h ! r
      in (length (stmts h),
          h\<lparr>stmts := stmts h @ [s\<lparr>kwargs := length (dicts h)\<rparr>],
            dicts := dicts h @ [dicts h ! kwargs s]\<rparr>))"

text \<open>\<open>_set_comparison\<close>: a copy whose dict has the one more entry.\<close>

definition set_comparison :: "nat \<Rightarrow> string \<Rightarrow> pyval \<Rightarrow> 'p heap \<Rightarrow> nat \<times> 'p heap" where
  "set_comparison r key val h =
     (let (obj, h') = copy r h; k = kwargs (stmts h' ! obj)
      in (obj, h'\<lparr>dicts := (dicts h')[k := fmupd key val (dicts h' ! k)]\<rparr>))"

subsection \<open>\<open>get_kwargs\<close>\<close>

text \<open>
  What \<open>Statement.get_kwargs\<close> returns: the statement's own dict object, or the new dict
  that \<open>|\<close> built.
\<close>

datatype kwargs_ref = Own nat | Merged pydict

definition Statement_get_kwargs :: "session \<Rightarrow> 'p heap \<Rightarrow> nat \<Rightarrow> kwargs_ref" where
  "Statement_get_kwargs sess h r =
     (let s = stmts h ! r
      in if use_global_params (stmt_class s)
         then Merged (parameters sess ++\<^sub>f (dicts h ! kwargs s))
         else Own (kwargs s))"

text \<open>\<open>kwargs["_start_"] = start; kwargs["_end_"] = end\<close> on a dict.\<close>

definition with_interval :: "int \<times> int \<Rightarrow> pydict \<Rightarrow> pydict" where
  "with_interval iv d =
     fmupd ''_end_'' (PDatetime (snd iv)) (fmupd ''_start_'' (PDatetime (fst iv)) d)"

text \<open>
  \<open>Historical.get_kwargs\<close>. \<open>rollback\<close> is \<open>TimePeriod.rollback\<close>, whose class is not
  among the sources: it is a parameter, giving the endpoints \<open>(left, right)\<close> of the
  interval; \<open>now\<close> is the reading of the wall clock. The two assignments go to whatever
  dict \<open>super().get_kwargs()\<close> returned: the statement's own dict when no parameters were
  merged.
\<close>

definition Historical_get_kwargs :: "('p \<Rightarrow> int \<Rightarrow> int \<times> int) \<Rightarrow> session \<Rightarrow> int \<Rightarrow> 'p heap \<Rightarrow> nat
    \<Rightarrow> kwargs_ref \<times> 'p heap" where
  "Historical_get_kwargs rollback sess now h r =
     (let kw = Statement_get_kwargs sess h r
      in case period (stmts h ! r) of
           None \<Rightarrow> (kw, h)
         | Some p \<Rightarrow>
             (let interval = rollback p now
              in case kw of
                   Merged d \<Rightarrow> (Merged (with_interval interval d), h)
                 | Own a \<Rightarrow>
                     (Own a, h\<lparr>dicts := (dicts h)[a := with_interval interval (dicts h ! a)]\<rparr>)))"

text \<open>
  The method an object's class resolves \<open>get_kwargs\<close> to: \<open>Historical\<close>'s when that
  class is an ancestor (\<open>Comparable.get_kwargs\<close> only calls \<open>super()\<close>).
\<close>

definition get_kwargs :: "('p \<Rightarrow> int \<Rightarrow> int \<times> int) \<Rightarrow> session \<Rightarrow> int \<Rightarrow> 'p heap \<Rightarrow> nat
    \<Rightarrow> kwargs_ref \<times> 'p heap" where
  "get_kwargs rollback sess now h r =
     (if issubclass (stmt_class (stmts h ! r)) Historical_id
      then Historical_get_kwargs rollback sess now h r
      else (Statement_get_kwargs sess h r, h))"

text \<open>The dict that \<open>**\<close> unpacks into the call.\<close>

fun unpack :: "'p heap \<Rightarrow> kwargs_ref \<Rightarrow> pydict" where
  "unpack h (Own a) = dicts h ! a"
| "unpack h (Merged d) = d"

subsection \<open>\<open>__bool__\<close>\<close>

definition Statement_str :: "pyclass \<Rightarrow> string" where
  "Statement_str c =
     ''< Statement '' @ [CHR 0x27] @ (case name_attr c of None \<Rightarrow> ''None'' | Some n \<Rightarrow> n)
       @ [CHR 0x27] @ ''>''"

definition log_exception :: "pyclass \<Rightarrow> exc \<Rightarrow> log_record" where
  "log_exception c e =
     \<lparr>levelname = ERROR,
      msg = ''Statement '' @ [CHR 0x27] @ Statement_str c @ [CHR 0x27]
              @ '' is False due to an Exception.'',
      exc_info = e\<rparr>"

text \<open>The method an object's class resolves \<open>_to_bool\<close> to.\<close>

definition to_bool :: "'p heap \<Rightarrow> nat \<Rightarrow> observation \<Rightarrow> bool" where
  "to_bool h r res =
     (let s = stmts h ! r
      in if issubclass (stmt_class s) Comparable_id
         then Comparable_to_bool (dicts h ! kwargs s) res
         else Statement_to_bool res)"

text \<open>
  The body of the \<open>try\<close>: the exception raised, or the status, and the dict the call of
  \<open>observe\<close> received.
\<close>

definition observe_call :: "('p \<Rightarrow> int \<Rightarrow> int \<times> int) \<Rightarrow> session \<Rightarrow> int \<Rightarrow> 'p heap \<Rightarrow> nat
    \<Rightarrow> (exc + observation) \<times> pydict \<times> 'p heap" where
  "observe_call rollback sess now h r =
     (let s = stmts h ! r;
          (kw, h') = get_kwargs rollback sess now h r;
          passed = unpack h' kw
      in (observe (stmt_class s) sess (args s) passed, passed, h'))"

text \<open>
  \<open>Statement.__bool__\<close>: the value returned (\<open>Inr\<close>) or the exception that leaves the
  method (\<open>Inl\<close>), with the heap and the log as the call leaves them.
\<close>

definition Statement_bool :: "('p \<Rightarrow> int \<Rightarrow> int \<times> int) \<Rightarrow> session \<Rightarrow> int \<Rightarrow> 'p heap \<Rightarrow> nat
    \<Rightarrow> log_record list \<Rightarrow> (exc + bool) \<times> 'p heap \<times> log_record list" where
  "Statement_bool rollback sess now h r lg =
     (let (outcome, passed, h') = observe_call rollback sess now h r
      in case outcome of
           Inr res \<Rightarrow> (Inr (to_bool h' r res), h', lg)
         | Inl e \<Rightarrow>
             if let_through e then (Inl e, h', lg)
             else if is_Exception e then
               (let lg' = lg @ [log_exception (stmt_class (stmts h' ! r)) e]
                in if debug sess then (Inl e, h', lg') else (Inr False, h', lg'))
             else (Inl e, h', lg))"

subsection \<open>\<open>__eq__\<close> and the comparison builders\<close>

text \<open>The right operand of a comparison: a statement of the heap, or any other value.\<close>

datatype operand = OStmt nat | OVal pyval

fun as_value :: "operand \<Rightarrow> pyval" where
  "as_value (OStmt b) = PStmt b"
| "as_value (OVal v) = v"

text \<open>What a comparison returns: a boolean, or a new statement object.\<close>

datatype eq_result = EqBool bool | EqStmt nat

text \<open>
  Python's \<open>==\<close> on the values that a tuple, a list or a dict holds. Numbers are equal
  across bool, int and float when their values are; lists of one length are equal when
  their elements are, compared from the left up to the first that differ; a value of one
  kind never equals one of another. A statement held as an element is compared the way
  Python compares any object: it equals itself, and against anything else its own
  \<open>__eq__\<close> decides, also when it is the right operand, since no other type here knows
  how to compare itself with a statement. \<open>se a other\<close> stands for the truth value of
  \<open>a == other\<close> for such a statement \<open>a\<close>. The result is \<open>None\<close> where that truth
  value is not determined by the comparison alone (see \<open>nested\<close> below).
\<close>

fun py_eq :: "(nat \<Rightarrow> operand \<Rightarrow> bool option) \<Rightarrow> pyval \<Rightarrow> pyval \<Rightarrow> bool option"
  and seq_eq :: "(nat \<Rightarrow> operand \<Rightarrow> bool option) \<Rightarrow> pyval list \<Rightarrow> pyval list \<Rightarrow> bool option" where
  "py_eq se (PStmt a) y =
     (case y of
        PStmt b \<Rightarrow> if a = b then Some True else se a (OStmt b)
      | _ \<Rightarrow> se a (OVal y))"
| "py_eq se (PList xs) y =
     (case y of
        PList ys \<Rightarrow> if length xs \<noteq> length ys then Some False else seq_eq se xs ys
      | PStmt b \<Rightarrow> se b (OVal (PList xs))
      | _ \<Rightarrow> Some False)"
| "py_eq se x y =
     (case y of
        PStmt b \<Rightarrow> se b (OVal x)
      | _ \<Rightarrow> Some (case (num_of x, num_of y) of
                     (Some p, Some q) \<Rightarrow> p = q
                   | (None, None) \<Rightarrow> x = y
                   | _ \<Rightarrow> False))"
| "seq_eq se [] [] = Some True"
| "seq_eq se (x # xs) (y # ys) =
     (case py_eq se x y of
        None \<Rightarrow> None
      | Some False \<Rightarrow> Some False
      | Some True \<Rightarrow> seq_eq se xs ys)"
| "seq_eq se _ _ = Some False"

text \<open>
  Equality of two tuples: the items are compared from the left up to the first pair that
  differs; with no such pair, the sizes decide.
\<close>

fun tuple_eq :: "(pyval \<Rightarrow> pyval \<Rightarrow> bool option) \<Rightarrow> pyval list \<Rightarrow> pyval list \<Rightarrow> bool option" where
  "tuple_eq el [] [] = Some True"
| "tuple_eq el (x # xs) (y # ys) =
     (case el x y of
        None \<Rightarrow> None
      | Some False \<Rightarrow> Some False
      | Some True \<Rightarrow> tuple_eq el xs ys)"
| "tuple_eq el _ _ = Some False"

text \<open>
  Equality of two dicts: dicts of different sizes are unequal; otherwise the values under
  the keys of the first are compared with those of the second. The order of the keys is not
  part of the model: where one of these comparisons has no determined truth value, neither
  has the comparison of the dicts.
\<close>

definition dict_eq :: "(pyval \<Rightarrow> pyval \<Rightarrow> bool option) \<Rightarrow> pydict \<Rightarrow> pydict \<Rightarrow> bool option" where
  "dict_eq el d e =
     (let common = fmdom d |\<inter>| fmdom e;
          cmp = (\<lambda>k. el (the (fmlookup d k)) (the (fmlookup e k)))
      in if fcard (fmdom d) \<noteq> fcard (fmdom e) then Some False
         else if fBex common (\<lambda>k. cmp k = None) then None
         else Some (fmdom d = fmdom e \<and> fBall common (\<lambda>k. cmp k = Some True)))"

text \<open>\<open>isinstance(other, d)\<close> for a statement class \<open>d\<close>: no plain value is an instance.\<close>

fun isinstance :: "'p heap \<Rightarrow> operand \<Rightarrow> nat \<Rightarrow> bool" where
  "isinstance h (OStmt b) d = issubclass (stmt_class (stmts h ! b)) d"
| "isinstance h (OVal v) d = False"

definition type_of :: "'p heap \<Rightarrow> nat \<Rightarrow> nat" where
  "type_of h a = cls_id (stmt_class (stmts h ! a))"

text \<open>
  \<open>Statement.__eq__\<close>, with \<open>el\<close> the comparison of two values held in the args or
  kwargs.
\<close>

fun Statement_eq :: "(pyval \<Rightarrow> pyval \<Rightarrow> bool option) \<Rightarrow> 'p heap \<Rightarrow> nat \<Rightarrow> operand \<Rightarrow> bool option" where
  "Statement_eq el h a (OStmt b) =
     (if isinstance h (OStmt b) (type_of h a)
      then (let has_same_args = tuple_eq el (args (stmts h ! a)) (args (stmts h ! b));
                has_same_kwargs = dict_eq el (dicts h ! kwargs (stmts h ! a))
                                             (dicts h ! kwargs (stmts h ! b))
            in case (has_same_args, has_same_kwargs) of
                 (Some t, Some d) \<Rightarrow> Some (t \<and> d)
               | _ \<Rightarrow> None)
      else Some False)"
| "Statement_eq el h a (OVal v) = Some False"

text \<open>
  \<open>Comparable.__eq__\<close> and \<open>Historical.__eq__\<close>; \<open>super_eq\<close> is what
  \<open>super().__eq__(other)\<close> returns. In \<open>Historical.__eq__\<close> that is a boolean
  whenever \<open>other\<close> is of the class of \<open>self\<close>; were it an object \<open>x\<close>, the model
  leaves \<open>x and has_same_period\<close> at \<open>x\<close>.
\<close>

definition Comparable_eq :: "(eq_result \<times> 'p heap) option \<Rightarrow> 'p heap \<Rightarrow> nat \<Rightarrow> operand
    \<Rightarrow> (eq_result \<times> 'p heap) option" where
  "Comparable_eq super_eq h a other =
     (if isinstance h other Comparable_id then super_eq
      else Some (let (obj, h') = set_comparison a ''_eq_'' (as_value other) h in (EqStmt obj, h')))"

fun same_period :: "'p heap \<Rightarrow> nat \<Rightarrow> operand \<Rightarrow> bool" where
  "same_period h a (OStmt b) = (period (stmts h ! a) = period (stmts h ! b))"
| "same_period h a (OVal v) = False"

definition Historical_eq :: "(eq_result \<times> 'p heap) option \<Rightarrow> 'p heap \<Rightarrow> nat \<Rightarrow> operand
    \<Rightarrow> (eq_result \<times> 'p heap) option" where
  "Historical_eq super_eq h a other =
     (if isinstance h other (type_of h a)
      then (let has_same_period = same_period h a other
            in case super_eq of
                 None \<Rightarrow> None
               | Some (EqBool b, h') \<Rightarrow> Some (EqBool (b \<and> has_same_period), h')
               | Some (EqStmt x, h') \<Rightarrow> Some (EqStmt x, h'))
      else super_eq)"

text \<open>
  \<open>self.__eq__(other)\<close> along the method resolution order: the first class that defines
  \<open>__eq__\<close> runs, and \<open>super()\<close> continues with the classes after it. A class made by
  \<open>from_func\<close> defines none; past the last class stands \<open>object\<close>, whose equality is
  identity.
\<close>

fun eq_mro :: "(pyval \<Rightarrow> pyval \<Rightarrow> bool option) \<Rightarrow> nat list \<Rightarrow> 'p heap \<Rightarrow> nat \<Rightarrow> operand
    \<Rightarrow> (eq_result \<times> 'p heap) option" where
  "eq_mro el [] h a other = Some (EqBool (other = OStmt a), h)"
| "eq_mro el (c # cs) h a other =
     (if c = Comparable_id then Comparable_eq (eq_mro el cs h a other) h a other
      else if c = Historical_id then Historical_eq (eq_mro el cs h a other) h a other
      else if c = Statement_id
        then map_option (\<lambda>t. (EqBool t, h)) (Statement_eq el h a other)
      else eq_mro el cs h a other)"

text \<open>
  The expression \<open>a == other\<close>. When \<open>other\<close> is of another class that is a subclass of
  the class of \<open>a\<close>, Python asks \<open>other.__eq__(a)\<close> first; none of the methods above
  returns \<open>NotImplemented\<close>, so the first answer stands.
\<close>

fun equals :: "(pyval \<Rightarrow> pyval \<Rightarrow> bool option) \<Rightarrow> 'p heap \<Rightarrow> nat \<Rightarrow> operand
    \<Rightarrow> (eq_result \<times> 'p heap) option" where
  "equals el h a (OStmt b) =
     (if type_of h a \<noteq> type_of h b \<and> issubclass (stmt_class (stmts h ! b)) (type_of h a)
      then eq_mro el (mro (stmt_class (stmts h ! b))) h b (OStmt a)
      else eq_mro el (mro (stmt_class (stmts h ! a))) h a (OStmt b))"
| "equals el h a (OVal v) = eq_mro el (mro (stmt_class (stmts h ! a))) h a (OVal v)"

text \<open>
  The truth value a container's comparison takes of \<open>a == other\<close>. Where the comparison
  returns a boolean, it is that boolean. Where it returns a new statement (a comparable
  statement against an operand that is not one), the truth value is that of the new
  statement, which is an evaluation of it by \<open>__bool__\<close>: the comparison alone does not
  determine it, and the model gives \<open>None\<close>.
\<close>

fun truth :: "(eq_result \<times> 'p heap) option \<Rightarrow> bool option" where
  "truth (Some (EqBool t, h')) = Some t"
| "truth _ = None"

text \<open>
  The comparison of a statement held in a tuple, a list or a dict, which compares the
  statements that its own args and kwargs hold in turn. The descent through the heap is
  bounded by \<open>n\<close>, the number of statements nested in one another that it follows, as
  Python's is by its recursion limit; past that bound the result is \<open>None\<close>.
\<close>

primrec nested :: "nat \<Rightarrow> 'p heap \<Rightarrow> nat \<Rightarrow> operand \<Rightarrow> bool option" where
  "nested 0 h = (\<lambda>a other. None)"
| "nested (Suc n) h = (\<lambda>a other. truth (equals (py_eq (nested n h)) h a other))"

text \<open>\<open>x == y\<close> for two values held in args or kwargs, and the expression \<open>a == other\<close> for a statement.\<close>

definition value_eq :: "nat \<Rightarrow> 'p heap \<Rightarrow> pyval \<Rightarrow> pyval \<Rightarrow> bool option" where
  "value_eq n h = py_eq (nested n h)"

definition stmt_equals :: "nat \<Rightarrow> 'p heap \<Rightarrow> nat \<Rightarrow> operand \<Rightarrow> (eq_result \<times> 'p heap) option" where
  "stmt_equals n h a other = equals (value_eq n h) h a other"

text \<open>\<open>Comparable.__ne__\<close>, \<open>__lt__\<close>, \<open>__gt__\<close>, \<open>__le__\<close>, \<open>__ge__\<close>.\<close>

definition Comparable_cmp :: "relop \<Rightarrow> 'p heap \<Rightarrow> nat \<Rightarrow> operand \<Rightarrow> nat \<times> 'p heap" where
  "Comparable_cmp op h a other = set_comparison a (relop_key op) (as_value other) h"

text \<open>
  A class of statements has \<open>Statement\<close> as the last of its ancestors, and nowhere
  before.
\<close>

definition statement_class :: "pyclass \<Rightarrow> bool" where
  "statement_class c = (last (mro c) = Statement_id \<and> Statement_id \<notin> set (butlast (mro c)))"

section \<open>The relational check as the specification words it\<close>

text \<open>
  Following the spec: "\<open>_to_bool\<close> then reduces the observation to a scalar length (for
  countable results) or the value itself and checks all attached operators conjunctively;
  with no operators it reduces to \<open>observation > 0\<close>". An operator is applied the way the
  expression \<open>res op val\<close> is evaluated: two numbers are compared by their values; of a
  number and a value that is not one, \<open>==\<close> is false, \<open>!=\<close> is true and an ordering
  raises \<open>TypeError\<close>.
\<close>

fun scalar_value :: "scalar \<Rightarrow> rat" where
  "scalar_value (SInt n) = of_int n"
| "scalar_value (SFloat q) = q"

definition applied :: "relop \<Rightarrow> scalar \<Rightarrow> pyval \<Rightarrow> exc + bool" where
  "applied op s v =
     (case num_of v of
        Some q \<Rightarrow> Inr (compare op (scalar_value s) q)
      | None \<Rightarrow> (case op of Eq \<Rightarrow> Inr False | Ne \<Rightarrow> Inr True | _ \<Rightarrow> Inl TypeError))"

text \<open>A conjunction from left to right, which stops at the first false or failing check.\<close>

fun conjunction :: "(exc + bool) list \<Rightarrow> exc + bool" where
  "conjunction [] = Inr True"
| "conjunction (Inl e # xs) = Inl e"
| "conjunction (Inr False # xs) = Inr False"
| "conjunction (Inr True # xs) = conjunction xs"

definition spec_to_bool :: "pydict \<Rightarrow> observation \<Rightarrow> exc + bool" where
  "spec_to_bool kw res =
     (let s = to_scalar res; cs = comps kw
      in if cs = [] then Inr (positive s)
         else conjunction (map (\<lambda>(op, val). applied op s val) cs))"

section \<open>The timeout option of the session's configuration\<close>

text \<open>
  Modelled from the spec: the reading of the \<open>timeout\<close> option when a session is
  constructed. The session module is not among the sources; its tests
  (\<open>test_timeout_parse\<close>, \<open>test_empty\<close>) are. The spec: "timeout: duration = 30m -
  default per-task timeout; accepts number-of-seconds, ISO duration, or human string like
  "0.1 seconds"". A duration is given in seconds. Of the strings, the model reads the
  shape of the spec's example, a decimal number followed by the word seconds, and gives
  \<open>None\<close> for any other.
\<close>

datatype timeout_option = Number rat | Text string | Duration rat

definition digit :: "char \<Rightarrow> nat option" where
  "digit c = (let n = (of_char c :: nat) in if 48 \<le> n \<and> n \<le> 57 then Some (n - 48) else None)"

fun digits :: "nat \<Rightarrow> string \<Rightarrow> nat option" where
  "digits acc [] = Some acc"
| "digits acc (c # cs) = (case digit c of None \<Rightarrow> None | Some d \<Rightarrow> digits (10 * acc + d) cs)"

definition decimal :: "string \<Rightarrow> rat option" where
  "decimal s =
     (let whole = takeWhile (\<lambda>c. c \<noteq> CHR ''.'') s;
          frac = drop (Suc (length whole)) s
      in if whole = [] then None
         else case (digits 0 whole, digits 0 frac) of
                (Some w, Some f) \<Rightarrow> Some (of_nat w + of_nat f / 10 ^ length frac)
              | _ \<Rightarrow> None)"

definition human :: "string \<Rightarrow> rat option" where
  "human s =
     (let number = takeWhile (\<lambda>c. c \<noteq> CHR '' '') s;
          unit = drop (Suc (length number)) s
      in if unit = ''seconds'' then decimal number else None)"

fun to_timedelta :: "timeout_option \<Rightarrow> rat option" where
  "to_timedelta (Number q) = Some q"
| "to_timedelta (Text s) = human s"
| "to_timedelta (Duration d) = Some d"

text \<open>\<open>config.timeout\<close> of \<open>Session(config={"timeout": t})\<close>, and of \<open>Session()\<close>.\<close>

fun config_timeout :: "timeout_option option \<Rightarrow> rat option" where
  "config_timeout None = Some (30 * 60)"
| "config_timeout (Some t) = to_timedelta t"

section \<open>Properties\<close>

subsection \<open>\<open>_to_bool\<close> on a boolean observation\<close>

text \<open>
  C10. When \<open>observe\<close> returns a plain boolean, \<open>Comparable._to_bool\<close> returns that
  boolean, whatever the kwargs of the statement hold: the relational operators attached to
  it are not looked at.
\<close>

theorem Comparable_to_bool_boolean: "Comparable_to_bool kw (ObsBool b) = b"
  by (simp add: Comparable_to_bool_def)

subsection \<open>The timeout option\<close>

text \<open>
  C9. A session constructed with the timeout given as the number 0.1, as the string
  "0.1 seconds" or as a duration of 0.1 seconds has a \<open>config.timeout\<close> of 0.1 seconds
  in all three cases; with no timeout given it is 30 minutes.
\<close>

theorem config_timeout_parse:
  "config_timeout (Some (Number (1 / 10))) = Some (1 / 10)
   \<and> config_timeout (Some (Text ''0.1 seconds'')) = Some (1 / 10)
   \<and> config_timeout (Some (Duration (1 / 10))) = Some (1 / 10)
   \<and> config_timeout None = Some (30 * 60)"
  by (simp add: human_def decimal_def digit_def)

subsection \<open>Exceptions raised by \<open>observe\<close>\<close>

lemma Statement_get_kwargs_debug:
  "Statement_get_kwargs (sess\<lparr>debug := d\<rparr>) h r = Statement_get_kwargs sess h r"
  by (simp add: Statement_get_kwargs_def Let_def)

lemma get_kwargs_debug:
  "get_kwargs rollback (sess\<lparr>debug := d\<rparr>) now h r = get_kwargs rollback sess now h r"
  by (simp add: get_kwargs_def Historical_get_kwargs_def Statement_get_kwargs_debug)

lemmas class_ids = Statement_id_def Comparable_id_def Historical_id_def

lemmas evaluation_defs =
  Statement_bool_def observe_call_def get_kwargs_def Historical_get_kwargs_def
  Statement_get_kwargs_def to_bool_def from_func_def issubclass_def mro_def class_ids

text \<open>
  C1, as stated, fails: an \<open>ImportError\<close> raised by \<open>observe\<close> leaves \<open>__bool__\<close>
  although \<open>debug\<close> is off, and nothing is logged.
\<close>

theorem import_error_not_swallowed:
  "Statement_bool (\<lambda>(p::int) t. (t - p, t)) \<lparr>parameters = fmempty, debug = False\<rparr> 0
     \<lparr>stmts = [\<lparr>stmt_class = from_func 3 ''broken'' (\<lambda>ses as kw. Inl ImportError) False False False,
                 args = [], kwargs = 0, period = None\<rparr>],
      dicts = [fmempty]\<rparr> 0 []
   = (Inl ImportError,
      \<lparr>stmts = [\<lparr>stmt_class = from_func 3 ''broken'' (\<lambda>ses as kw. Inl ImportError) False False False,
                 args = [], kwargs = 0, period = None\<rparr>],
       dicts = [fmempty]\<rparr>,
      [])"
  by (simp add: evaluation_defs)

text \<open>
  C1, amended. If the call of \<open>observe\<close> raises an exception that derives from
  \<open>Exception\<close> and is not an \<open>ImportError\<close>, the exception is logged at error level,
  and \<open>bool(s)\<close> is false, unless \<open>config.debug\<close> is set, in which case the
  exception propagates to the caller.
\<close>

theorem exception_logged_and_false:
  assumes "observe_call rollback sess now h r = (Inl e, passed, h')"
    and "is_Exception e" and "\<not> let_through e"
  shows "Statement_bool rollback sess now h r lg =
           (if debug sess then Inl e else Inr False, h',
            lg @ [log_exception (stmt_class (stmts h' ! r)) e])
         \<and> levelname (log_exception (stmt_class (stmts h' ! r)) e) = ERROR"
  using assms by (auto simp: Statement_bool_def log_exception_def)

theorem exception_logged_and_false_witness:
  "observe_call (\<lambda>(p::int) t. (t - p, t)) \<lparr>parameters = fmempty, debug = False\<rparr> 0
     \<lparr>stmts = [\<lparr>stmt_class = from_func 3 ''broken'' (\<lambda>ses as kw. Inl ValueError) False False False,
                 args = [], kwargs = 0, period = None\<rparr>],
      dicts = [fmempty]\<rparr> 0
   = (Inl ValueError, fmempty,
      \<lparr>stmts = [\<lparr>stmt_class = from_func 3 ''broken'' (\<lambda>ses as kw. Inl ValueError) False False False,
                 args = [], kwargs = 0, period = None\<rparr>],
       dicts = [fmempty]\<rparr>)
   \<and> is_Exception ValueError \<and> \<not> let_through ValueError
   \<and> fst (Statement_bool (\<lambda>(p::int) t. (t - p, t)) \<lparr>parameters = fmempty, debug = False\<rparr> 0
     \<lparr>stmts = [\<lparr>stmt_class = from_func 3 ''broken'' (\<lambda>ses as kw. Inl ValueError) False False False,
                 args = [], kwargs = 0, period = None\<rparr>],
      dicts = [fmempty]\<rparr> 0 []) = Inr False"
proof -
  let ?c = "from_func 3 ''broken'' (\<lambda>ses as kw. Inl ValueError) False False False"
  let ?h = "\<lparr>stmts = [\<lparr>stmt_class = ?c, args = [], kwargs = 0, period = None :: int option\<rparr>],
             dicts = [fmempty]\<rparr>"
  let ?sess = "\<lparr>parameters = fmempty, debug = False\<rparr>"
  have call: "observe_call (\<lambda>(p::int) t. (t - p, t)) ?sess 0 ?h 0 = (Inl ValueError, fmempty, ?h)"
    by (simp add: evaluation_defs)
  from exception_logged_and_false [OF call, of "[]"] call show ?thesis
    by simp
qed

subsection \<open>Interrupts and import errors\<close>

text \<open>
  C6. If \<open>observe\<close> raises a \<open>KeyboardInterrupt\<close> or an \<open>ImportError\<close> (an instance
  of either class, so a \<open>ModuleNotFoundError\<close> too), the exception leaves \<open>bool(s)\<close>
  whatever the value of \<open>config.debug\<close>, and nothing is logged.
\<close>

theorem interrupt_and_import_error_reraised:
  assumes "observe_call rollback (sess\<lparr>debug := d\<rparr>) now h r = (Inl e, passed, h')"
    and "let_through e"
  shows "Statement_bool rollback (sess\<lparr>debug := d\<rparr>) now h r lg = (Inl e, h', lg)"
  using assms by (auto simp: Statement_bool_def)

theorem interrupt_and_import_error_reraised_witness:
  "observe_call (\<lambda>(p::int) t. (t - p, t)) (\<lparr>parameters = fmempty, debug = True\<rparr>\<lparr>debug := False\<rparr>) 0
     \<lparr>stmts = [\<lparr>stmt_class = from_func 3 ''needs_module'' (\<lambda>ses as kw. Inl ModuleNotFoundError)
                   False False False,
                 args = [], kwargs = 0, period = None\<rparr>],
      dicts = [fmempty]\<rparr> 0
   = (Inl ModuleNotFoundError, fmempty,
      \<lparr>stmts = [\<lparr>stmt_class = from_func 3 ''needs_module'' (\<lambda>ses as kw. Inl ModuleNotFoundError)
                   False False False,
                 args = [], kwargs = 0, period = None\<rparr>],
       dicts = [fmempty]\<rparr>)
   \<and> let_through ModuleNotFoundError \<and> let_through ImportError \<and> let_through KeyboardInterrupt
   \<and> Statement_bool (\<lambda>(p::int) t. (t - p, t)) (\<lparr>parameters = fmempty, debug = True\<rparr>\<lparr>debug := False\<rparr>) 0
     \<lparr>stmts = [\<lparr>stmt_class = from_func 3 ''needs_module'' (\<lambda>ses as kw. Inl ModuleNotFoundError)
                   False False False,
                 args = [], kwargs = 0, period = None\<rparr>],
      dicts = [fmempty]\<rparr> 0 []
     = (Inl ModuleNotFoundError,
      \<lparr>stmts = [\<lparr>stmt_class = from_func 3 ''needs_module'' (\<lambda>ses as kw. Inl ModuleNotFoundError)
                   False False False,
                 args = [], kwargs = 0, period = None\<rparr>],
       dicts = [fmempty]\<rparr>, [])"
proof -
  let ?c = "from_func 3 ''needs_module'' (\<lambda>ses as kw. Inl ModuleNotFoundError) False False False"
  let ?h = "\<lparr>stmts = [\<lparr>stmt_class = ?c, args = [], kwargs = 0, period = None :: int option\<rparr>],
             dicts = [fmempty]\<rparr>"
  let ?sess = "\<lparr>parameters = fmempty, debug = True\<rparr>"
  have call: "observe_call (\<lambda>(p::int) t. (t - p, t)) (?sess\<lparr>debug := False\<rparr>) 0 ?h 0
                = (Inl ModuleNotFoundError, fmempty, ?h)"
    by (simp add: evaluation_defs)
  have through: "let_through ModuleNotFoundError"
    by simp
  from interrupt_and_import_error_reraised [OF call through, of "[]"] call show ?thesis
    by simp
qed

subsection \<open>Statements that do not use the session's parameters\<close>






subsection \<open>The session's parameters in the call of \<open>observe\<close>\<close>

lemma fmlookup_add_right_wins:
  "fmlookup (m ++\<^sub>f n) k = (case fmlookup n k of Some v \<Rightarrow> Some v | None \<Rightarrow> fmlookup m k)"
  by (auto simp: fmlookup_dom_iff split: option.splits)

text \<open>
  C4. For a statement of a class with \<open>use_globals=True\<close>, \<open>get_kwargs\<close> gives the
  session's parameters merged with the statement's own kwargs; under a key that both hold
  the statement's value stands. That dict is what the call of \<open>observe\<close> receives (a
  \<open>Historical\<close> statement with a period adds the two entries of its interval to it).
\<close>

theorem parameters_merged_local_wins:
  fixes h :: "'p heap" and r :: nat and sess :: session
  defines "s \<equiv> stmts h ! r"
  defines "merged \<equiv> parameters sess ++\<^sub>f (dicts h ! kwargs s)"
  assumes "use_global_params (stmt_class s)"
  shows "Statement_get_kwargs sess h r = Merged merged
       \<and> fmlookup merged k =
           (case fmlookup (dicts h ! kwargs s) k of
              Some v \<Rightarrow> Some v
            | None \<Rightarrow> fmlookup (parameters sess) k)
       \<and> fst (snd (observe_call rollback sess now h r)) =
           (if issubclass (stmt_class s) Historical_id
            then (case period s of
                    None \<Rightarrow> merged
                  | Some p \<Rightarrow> with_interval (rollback p now) merged)
            else merged)
       \<and> fst (observe_call rollback sess now h r) =
           observe (stmt_class s) sess (args s) (fst (snd (observe_call rollback sess now h r)))"
proof -
  have kw: "Statement_get_kwargs sess h r = Merged merged"
    using assms by (simp add: Statement_get_kwargs_def)
  have look: "fmlookup merged k =
      (case fmlookup (dicts h ! kwargs s) k of Some v \<Rightarrow> Some v | None \<Rightarrow> fmlookup (parameters sess) k)"
    unfolding merged_def by (rule fmlookup_add_right_wins)
  have call: "observe_call rollback sess now h r =
      (let passed = (if issubclass (stmt_class s) Historical_id
                     then (case period s of None \<Rightarrow> merged
                           | Some p \<Rightarrow> with_interval (rollback p now) merged)
                     else merged)
       in (observe (stmt_class s) sess (args s) passed, passed, h))"
    using kw
    by (simp add: observe_call_def get_kwargs_def Historical_get_kwargs_def s_def Let_def
        split: option.splits)
  show ?thesis
    using kw look by (simp add: call Let_def)
qed

theorem parameters_merged_local_wins_witness:
  "use_global_params (stmt_class (stmts
      \<lparr>stmts = [\<lparr>stmt_class = from_func 3 ''mode_of''
                    (\<lambda>ses as kw. Inr (ObsBool (fmlookup kw ''mode'' = Some (PStr ''test'')))) False False True,
                  args = [], kwargs = 0, period = None :: int option\<rparr>],
       dicts = [fmupd ''mode'' (PStr ''test'') fmempty]\<rparr> ! 0))
   \<and> fmlookup (fst (snd (observe_call (\<lambda>(p::int) t. (t - p, t))
        \<lparr>parameters = fmupd ''env'' (PStr ''dev'') (fmupd ''mode'' (PStr ''prod'') fmempty),
         debug = False\<rparr> 0
      \<lparr>stmts = [\<lparr>stmt_class = from_func 3 ''mode_of''
                    (\<lambda>ses as kw. Inr (ObsBool (fmlookup kw ''mode'' = Some (PStr ''test'')))) False False True,
                  args = [], kwargs = 0, period = None\<rparr>],
       dicts = [fmupd ''mode'' (PStr ''test'') fmempty]\<rparr> 0))) ''mode'' = Some (PStr ''test'')
   \<and> fmlookup (fst (snd (observe_call (\<lambda>(p::int) t. (t - p, t))
        \<lparr>parameters = fmupd ''env'' (PStr ''dev'') (fmupd ''mode'' (PStr ''prod'') fmempty),
         debug = False\<rparr> 0
      \<lparr>stmts = [\<lparr>stmt_class = from_func 3 ''mode_of''
                    (\<lambda>ses as kw. Inr (ObsBool (fmlookup kw ''mode'' = Some (PStr ''test'')))) False False True,
                  args = [], kwargs = 0, period = None\<rparr>],
       dicts = [fmupd ''mode'' (PStr ''test'') fmempty]\<rparr> 0))) ''env'' = Some (PStr ''dev'')"
proof -
  let ?c = "from_func 3 ''mode_of''
              (\<lambda>ses as kw. Inr (ObsBool (fmlookup kw ''mode'' = Some (PStr ''test'')))) False False True"
  let ?h = "\<lparr>stmts = [\<lparr>stmt_class = ?c, args = [], kwargs = 0, period = None :: int option\<rparr>],
             dicts = [fmupd ''mode'' (PStr ''test'') fmempty]\<rparr>"
  let ?sess = "\<lparr>parameters = fmupd ''env'' (PStr ''dev'') (fmupd ''mode'' (PStr ''prod'') fmempty),
                debug = False\<rparr>"
  have globals: "use_global_params (stmt_class (stmts ?h ! 0))"
    by (simp add: from_func_def)
  from parameters_merged_local_wins [OF globals, where sess = ?sess
      and rollback = "\<lambda>(p::int) t. (t - p, t)" and now = 0] globals
  show ?thesis
    by (simp add: from_func_def issubclass_def mro_def class_ids)
qed

subsection \<open>The interval of a historical statement\<close>

text \<open>
  C5. For a \<open>Historical\<close> statement with a period, an evaluation computes the interval
  \<open>period.rollback(now)\<close> and the call of \<open>observe\<close> receives the interval's left
  endpoint as \<open>_start_\<close> and its right endpoint as \<open>_end_\<close>.
\<close>

theorem historical_passes_interval:
  fixes h :: "'p heap" and r :: nat
  defines "s \<equiv> stmts h ! r"
  assumes "allocated h r"
    and "issubclass (stmt_class s) Historical_id"
    and "period s = Some p"
    and "observe_call rollback sess now h r = (outcome, passed, h')"
  shows "fmlookup passed ''_start_'' = Some (PDatetime (fst (rollback p now)))
       \<and> fmlookup passed ''_end_'' = Some (PDatetime (snd (rollback p now)))
       \<and> outcome = observe (stmt_class s) sess (args s) passed"
  using assms
  by (auto simp: observe_call_def get_kwargs_def Historical_get_kwargs_def
      Statement_get_kwargs_def with_interval_def allocated_def Let_def
      split: if_splits)

theorem historical_passes_interval_witness:
  "allocated
      \<lparr>stmts = [\<lparr>stmt_class = from_func 3 ''runs'' (\<lambda>ses as kw. Inr (ObsInt 2)) True True False,
                  args = [], kwargs = 0, period = Some (3600 :: int)\<rparr>],
       dicts = [fmupd ''task'' (PStr ''fetch'') fmempty]\<rparr> 0
   \<and> issubclass (from_func 3 ''runs'' (\<lambda>ses as kw. Inr (ObsInt 2)) True True False) Historical_id
   \<and> fmlookup (fst (snd (observe_call (\<lambda>(p::int) t. (t - p, t))
        \<lparr>parameters = fmempty, debug = False\<rparr> 5000
      \<lparr>stmts = [\<lparr>stmt_class = from_func 3 ''runs'' (\<lambda>ses as kw. Inr (ObsInt 2)) True True False,
                  args = [], kwargs = 0, period = Some (3600 :: int)\<rparr>],
       dicts = [fmupd ''task'' (PStr ''fetch'') fmempty]\<rparr> 0))) ''_start_'' = Some (PDatetime 1400)
   \<and> fmlookup (fst (snd (observe_call (\<lambda>(p::int) t. (t - p, t))
        \<lparr>parameters = fmempty, debug = False\<rparr> 5000
      \<lparr>stmts = [\<lparr>stmt_class = from_func 3 ''runs'' (\<lambda>ses as kw. Inr (ObsInt 2)) True True False,
                  args = [], kwargs = 0, period = Some (3600 :: int)\<rparr>],
       dicts = [fmupd ''task'' (PStr ''fetch'') fmempty]\<rparr> 0))) ''_end_'' = Some (PDatetime 5000)"
proof -
  let ?c = "from_func 3 ''runs'' (\<lambda>ses as kw. Inr (ObsInt 2)) True True False"
  let ?h = "\<lparr>stmts = [\<lparr>stmt_class = ?c, args = [], kwargs = 0, period = Some (3600 :: int)\<rparr>],
             dicts = [fmupd ''task'' (PStr ''fetch'') fmempty]\<rparr>"
  let ?sess = "\<lparr>parameters = fmempty, debug = False\<rparr>"
  let ?call = "observe_call (\<lambda>(p::int) t. (t - p, t)) ?sess 5000 ?h 0"
  have alloc: "allocated ?h 0"
    by (simp add: allocated_def)
  have hist: "issubclass (stmt_class (stmts ?h ! 0)) Historical_id"
    by (simp add: from_func_def issubclass_def mro_def)
  have per: "period (stmts ?h ! 0) = Some 3600"
    by simp
  have call: "?call = (fst ?call, fst (snd ?call), snd (snd ?call))"
    by simp
  from historical_passes_interval [OF alloc hist per call] alloc hist
  show ?thesis by simp
qed

subsection \<open>Copying and re-parameterising\<close>

lemma copy_fresh:
  assumes "copy r h = (new, h1)"
  shows "new = length (stmts h)"
    and "stmts h1 = stmts h @ [(stmts h ! r)\<lparr>kwargs := length (dicts h)\<rparr>]"
    and "dicts h1 = dicts h @ [dicts h ! kwargs (stmts h ! r)]"
  using assms by (auto simp: copy_def Let_def)

text \<open>The method does change the object it is called on.\<close>

lemma set_params_in_place:
  assumes "allocated h r"
  shows "args (stmts (set_params r as kw h) ! r) = args (stmts h ! r) @ as"
    and "dicts (set_params r as kw h) ! kwargs (stmts (set_params r as kw h) ! r)
           = dicts h ! kwargs (stmts h ! r) ++\<^sub>f kw"
  using assms by (simp_all add: set_params_def allocated_def Let_def)

text \<open>
  C8. \<open>set_params\<close> called on the copy \<open>s.copy()\<close> leaves \<open>s\<close> as it was: its
  \<open>args\<close> and the dict behind its \<open>kwargs\<close> are what they were before (as is every
  object that existed before), and the copy has the added arguments and bindings.
\<close>

theorem set_params_on_copy_leaves_original:
  fixes h :: "'p heap"
  assumes "allocated h r"
    and "copy r h = (new, h1)"
    and "set_params new as kw h1 = h2"
  shows "args (stmts h2 ! r) = args (stmts h ! r)
       \<and> kwargs (stmts h2 ! r) = kwargs (stmts h ! r)
       \<and> dicts h2 ! kwargs (stmts h2 ! r) = dicts h ! kwargs (stmts h ! r)
       \<and> take (length (stmts h)) (stmts h2) = stmts h
       \<and> take (length (dicts h)) (dicts h2) = dicts h
       \<and> args (stmts h2 ! new) = args (stmts h ! r) @ as
       \<and> dicts h2 ! kwargs (stmts h2 ! new) = dicts h ! kwargs (stmts h ! r) ++\<^sub>f kw
       \<and> (case fmlookup kw k of
             Some v \<Rightarrow> fmlookup (dicts h2 ! kwargs (stmts h2 ! new)) k = Some v
           | None \<Rightarrow> fmlookup (dicts h2 ! kwargs (stmts h2 ! new)) k
                      = fmlookup (dicts h ! kwargs (stmts h ! r)) k)"
proof -
  note c = copy_fresh [OF assms(2)]
  have r: "r < length (stmts h)" and k: "kwargs (stmts h ! r) < length (dicts h)"
    using assms(1) by (simp_all add: allocated_def)
  have new_obj: "stmts h1 ! new = (stmts h ! r)\<lparr>kwargs := length (dicts h)\<rparr>"
    by (simp add: c)
  have s2: "stmts h2 = stmts h @ [(stmts h ! r)\<lparr>kwargs := length (dicts h), args := args (stmts h ! r) @ as\<rparr>]"
    using assms(3) new_obj by (auto simp: set_params_def Let_def c)
  have d2: "dicts h2 = dicts h @ [dicts h ! kwargs (stmts h ! r) ++\<^sub>f kw]"
    using assms(3) new_obj by (auto simp: set_params_def Let_def c)
  show ?thesis
    using r k by (auto simp: s2 d2 c(1) nth_append fmlookup_dom_iff split: option.splits)
qed

theorem set_params_on_copy_leaves_original_witness:
  "allocated
     \<lparr>stmts = [\<lparr>stmt_class = Comparable_cls, args = [PInt 1], kwargs = 0, period = None :: int option\<rparr>],
      dicts = [fmupd ''_ge_'' (PInt 3) fmempty]\<rparr> 0
   \<and> copy 0
       \<lparr>stmts = [\<lparr>stmt_class = Comparable_cls, args = [PInt 1], kwargs = 0, period = None :: int option\<rparr>],
        dicts = [fmupd ''_ge_'' (PInt 3) fmempty]\<rparr>
     = (1, \<lparr>stmts = [\<lparr>stmt_class = Comparable_cls, args = [PInt 1], kwargs = 0, period = None\<rparr>,
                     \<lparr>stmt_class = Comparable_cls, args = [PInt 1], kwargs = 1, period = None\<rparr>],
            dicts = [fmupd ''_ge_'' (PInt 3) fmempty, fmupd ''_ge_'' (PInt 3) fmempty]\<rparr>)
   \<and> args (stmts (set_params 1 [] (fmupd ''task'' (PRef 7) fmempty)
        \<lparr>stmts = [\<lparr>stmt_class = Comparable_cls, args = [PInt 1], kwargs = 0, period = None :: int option\<rparr>,
                   \<lparr>stmt_class = Comparable_cls, args = [PInt 1], kwargs = 1, period = None\<rparr>],
         dicts = [fmupd ''_ge_'' (PInt 3) fmempty, fmupd ''_ge_'' (PInt 3) fmempty]\<rparr>) ! 0) = [PInt 1]
   \<and> fmlookup (dicts (set_params 1 [] (fmupd ''task'' (PRef 7) fmempty)
        \<lparr>stmts = [\<lparr>stmt_class = Comparable_cls, args = [PInt 1], kwargs = 0, period = None :: int option\<rparr>,
                   \<lparr>stmt_class = Comparable_cls, args = [PInt 1], kwargs = 1, period = None\<rparr>],
         dicts = [fmupd ''_ge_'' (PInt 3) fmempty, fmupd ''_ge_'' (PInt 3) fmempty]\<rparr>) ! 0) ''task'' = None
   \<and> fmlookup (dicts (set_params 1 [] (fmupd ''task'' (PRef 7) fmempty)
        \<lparr>stmts = [\<lparr>stmt_class = Comparable_cls, args = [PInt 1], kwargs = 0, period = None :: int option\<rparr>,
                   \<lparr>stmt_class = Comparable_cls, args = [PInt 1], kwargs = 1, period = None\<rparr>],
         dicts = [fmupd ''_ge_'' (PInt 3) fmempty, fmupd ''_ge_'' (PInt 3) fmempty]\<rparr>) ! 1) ''task''
       = Some (PRef 7)"
proof -
  let ?s = "\<lparr>stmt_class = Comparable_cls, args = [PInt 1], kwargs = 0, period = None :: int option\<rparr>"
  let ?d = "fmupd ''_ge_'' (PInt 3) fmempty"
  let ?h = "\<lparr>stmts = [?s], dicts = [?d]\<rparr>"
  let ?h1 = "\<lparr>stmts = [?s, ?s\<lparr>kwargs := 1\<rparr>], dicts = [?d, ?d]\<rparr>"
  let ?kw = "fmupd ''task'' (PRef 7) fmempty"
  have alloc: "allocated ?h 0"
    by (simp add: allocated_def)
  have cp: "copy 0 ?h = (1, ?h1)"
    by (simp add: copy_def)
  from set_params_on_copy_leaves_original [OF alloc cp refl, of "[]" ?kw "''task''"] alloc cp
  show ?thesis by (simp add: set_params_def)
qed

subsection \<open>The relational operators of a comparable statement\<close>

lemma compare_of_int: "compare op (of_int n :: rat) (of_int m) = compare op n m"
  by (cases op) simp_all

lemma applied_dunder:
  assumes "dunder op s v \<noteq> NotImplemented"
  shows "applied op s v = Inr (truthy (dunder op s v))"
proof (cases s)
  case (SInt n)
  with assms show ?thesis
    by (cases v) (simp_all add: applied_def compare_of_int)
next
  case (SFloat q)
  with assms show ?thesis
    by (cases v) (simp_all add: applied_def)
qed

lemma conjunction_checks:
  assumes "\<forall>(op, v) \<in> set cs. dunder op s v \<noteq> NotImplemented"
  shows "conjunction (map (\<lambda>(op, val). applied op s val) cs)
           = Inr (list_all (\<lambda>(op, val). truthy (dunder op s val)) cs)"
  using assms
proof (induction cs)
  case Nil
  then show ?case by simp
next
  case (Cons c cs)
  obtain op v where c: "c = (op, v)" by (cases c)
  with Cons.prems have "applied op s v = Inr (truthy (dunder op s v))"
    by (simp add: applied_dunder)
  with Cons c show ?case
    by (cases "truthy (dunder op s v)") simp_all
qed

text \<open>
  Where every operand is of a type the scalar's own comparison method knows (an int
  against an int, a float against an int or a float), \<open>Comparable._to_bool\<close> is the check
  of the spec.
\<close>

lemma Comparable_to_bool_implemented:
  assumes "\<forall>(op, v) \<in> set (comps kw). dunder op (to_scalar res) v \<noteq> NotImplemented"
    and "\<forall>b. res \<noteq> ObsBool b"
  shows "spec_to_bool kw res = Inr (Comparable_to_bool kw res)"
proof (cases res)
  case (ObsBool b)
  with assms(2) show ?thesis by blast
qed (use assms(1) in \<open>simp_all add: spec_to_bool_def Comparable_to_bool_def Let_def conjunction_checks\<close>)

lemma Comparable_to_bool_no_operator:
  assumes "comps kw = []" and "\<forall>b. res \<noteq> ObsBool b"
  shows "Comparable_to_bool kw res = positive (to_scalar res)"
proof (cases res)
  case (ObsBool b)
  with assms(2) show ?thesis by blast
qed (use assms(1) in \<open>simp_all add: Comparable_to_bool_def\<close>)

text \<open>
  C2. For an observation that is not a boolean, \<open>_to_bool\<close> reduces it to its length or
  to the value itself and returns the conjunction of the relational operators of the kwargs
  applied to that number. The code does not do so for a length, or an int, against a float:
  \<open>int.__lt__\<close> answers \<open>NotImplemented\<close>, which \<open>all\<close> takes for true. With three
  events observed and \<open>_lt_\<close> bound to 2.5 the statement holds, although 3 < 2.5 does not.
\<close>

theorem float_operand_taken_for_true:
  "Comparable_to_bool (fmupd ''_lt_'' (PFloat (5 / 2)) fmempty)
       (ObsSized [PStr ''run 1'', PStr ''run 2'', PStr ''run 3'']) = True
   \<and> spec_to_bool (fmupd ''_lt_'' (PFloat (5 / 2)) fmempty)
       (ObsSized [PStr ''run 1'', PStr ''run 2'', PStr ''run 3'']) = Inr False"
  by (simp add: Comparable_to_bool_def spec_to_bool_def comps_def relops_def
      List.map_filter_simps applied_def)

subsection \<open>Equality of statements\<close>

lemma class_ids_distinct:
  "Comparable_id \<noteq> Statement_id" "Historical_id \<noteq> Statement_id"
  "Comparable_id \<noteq> Historical_id" "Statement_id \<noteq> Comparable_id"
  "Statement_id \<noteq> Historical_id" "Historical_id \<noteq> Comparable_id"
  by (simp_all add: class_ids)

lemma Statement_eq_needs_instance:
  "\<not> isinstance h other (type_of h a) \<Longrightarrow> Statement_eq el h a other = Some False"
  by (cases other) simp_all

text \<open>The comparison of two lists' elements is that of two tuples' items.\<close>

lemma seq_eq_tuple_eq: "seq_eq se xs ys = tuple_eq (py_eq se) xs ys"
proof (induction xs arbitrary: ys)
  case Nil
  show ?case by (cases ys) simp_all
next
  case (Cons x xs)
  show ?case by (cases ys) (simp_all add: Cons split: option.splits bool.splits)
qed

text \<open>What \<open>self.__eq__(other)\<close> comes to along a method resolution order that ends in \<open>Statement\<close>.\<close>

lemma eq_mro_result:
  assumes "Statement_id \<notin> set pre"
  shows "eq_mro el (pre @ [Statement_id]) h a other =
    (if Comparable_id \<in> set pre \<and> \<not> isinstance h other Comparable_id
     then Some (let (obj, h') = set_comparison a ''_eq_'' (as_value other) h in (EqStmt obj, h'))
     else map_option
            (\<lambda>t. (EqBool (t \<and> (Historical_id \<in> set pre \<longrightarrow> same_period h a other)), h))
            (Statement_eq el h a other))"
  using assms
proof (induction pre)
  case Nil
  then show ?case by (simp add: class_ids_distinct)
next
  case (Cons c pre)
  then have ih: "eq_mro el (pre @ [Statement_id]) h a other =
    (if Comparable_id \<in> set pre \<and> \<not> isinstance h other Comparable_id
     then Some (let (obj, h') = set_comparison a ''_eq_'' (as_value other) h in (EqStmt obj, h'))
     else map_option
            (\<lambda>t. (EqBool (t \<and> (Historical_id \<in> set pre \<longrightarrow> same_period h a other)), h))
            (Statement_eq el h a other))"
    and c: "c \<noteq> Statement_id"
    by auto
  consider (comparable) "c = Comparable_id" | (historical) "c = Historical_id"
    | (other) "c \<noteq> Comparable_id" "c \<noteq> Historical_id"
    by blast
  then show ?case
  proof cases
    case comparable
    then show ?thesis
      by (simp add: ih Comparable_eq_def class_ids_distinct)
  next
    case historical
    then show ?thesis
      using Statement_eq_needs_instance [of h other a el]
      by (cases "Statement_eq el h a other")
         (auto simp: ih Historical_eq_def class_ids_distinct Let_def split: prod.splits)
  next
    case other
    with c show ?thesis
      by (simp add: ih)
  qed
qed

lemma statement_class_mro:
  assumes "statement_class c"
  shows "mro c = butlast (mro c) @ [Statement_id]"
    and "Statement_id \<notin> set (butlast (mro c))"
    and "d \<noteq> Statement_id \<Longrightarrow> d \<in> set (butlast (mro c)) \<longleftrightarrow> issubclass c d"
proof -
  have ne: "mro c \<noteq> []" by (simp add: mro_def)
  with assms show m: "mro c = butlast (mro c) @ [Statement_id]"
    by (metis append_butlast_last_id statement_class_def)
  from assms show "Statement_id \<notin> set (butlast (mro c))"
    by (simp add: statement_class_def)
  assume "d \<noteq> Statement_id"
  then have "d \<in> set (butlast (mro c) @ [Statement_id]) \<longleftrightarrow> d \<in> set (butlast (mro c))"
    by auto
  with m show "d \<in> set (butlast (mro c)) \<longleftrightarrow> issubclass c d"
    by (simp add: issubclass_def)
qed

text \<open>\<open>self.__eq__(other)\<close> for an object of a class of statements.\<close>

lemma eq_method:
  assumes "statement_class c"
  shows "eq_mro el (mro c) h a other =
    (if issubclass c Comparable_id \<and> \<not> isinstance h other Comparable_id
     then Some (let (obj, h') = set_comparison a ''_eq_'' (as_value other) h in (EqStmt obj, h'))
     else map_option
            (\<lambda>t. (EqBool (t \<and> (issubclass c Historical_id \<longrightarrow> same_period h a other)), h))
            (Statement_eq el h a other))"
proof -
  note m = statement_class_mro [OF assms]
  have "eq_mro el (butlast (mro c) @ [Statement_id]) h a other =
    (if issubclass c Comparable_id \<and> \<not> isinstance h other Comparable_id
     then Some (let (obj, h') = set_comparison a ''_eq_'' (as_value other) h in (EqStmt obj, h'))
     else map_option
            (\<lambda>t. (EqBool (t \<and> (issubclass c Historical_id \<longrightarrow> same_period h a other)), h))
            (Statement_eq el h a other))"
    using m(3) [of Comparable_id] m(3) [of Historical_id]
    by (simp add: eq_mro_result [OF m(2)] class_ids_distinct)
  with m(1) show ?thesis by simp
qed

text \<open>
  A deeper bound never changes a comparison that a lower bound determines.
\<close>

lemma py_eq_mono:
  shows "(\<And>a other t. se a other = Some t \<Longrightarrow> se' a other = Some t)
           \<Longrightarrow> py_eq se x y = Some t \<Longrightarrow> py_eq se' x y = Some t"
    and "(\<And>a other t. se a other = Some t \<Longrightarrow> se' a other = Some t)
           \<Longrightarrow> seq_eq se xs ys = Some t \<Longrightarrow> seq_eq se' xs ys = Some t"
proof (induction se x y and se xs ys arbitrary: t and t rule: py_eq_seq_eq.induct)
  case (5 se x xs y ys)
  show ?case
  proof (cases "py_eq se x y")
    case None
    with "5.prems" show ?thesis by simp
  next
    case (Some c)
    with "5.prems"(1) have head: "py_eq se' x y = Some c"
      by (rule "5.IH"(1))
    show ?thesis
    proof (cases c)
      case True
      with Some "5.prems" have "seq_eq se xs ys = Some t" by simp
      with True Some "5.prems"(1) have "seq_eq se' xs ys = Some t"
        using "5.IH"(2) by blast
      with head True show ?thesis by simp
    next
      case False
      with Some "5.prems" head show ?thesis by simp
    qed
  qed
qed (auto split: pyval.splits if_splits)

lemma tuple_eq_mono:
  assumes "\<And>x y t. el x y = Some t \<Longrightarrow> el' x y = Some t"
  shows "tuple_eq el xs ys = Some t \<Longrightarrow> tuple_eq el' xs ys = Some t"
proof (induction xs arbitrary: ys)
  case Nil
  then show ?case by (cases ys) simp_all
next
  case (Cons x xs)
  then show ?case
    using assms by (cases ys) (auto split: option.splits bool.splits)
qed

lemma dict_eq_mono:
  assumes "\<And>x y t. el x y = Some t \<Longrightarrow> el' x y = Some t"
  shows "dict_eq el d e = Some t \<Longrightarrow> dict_eq el' d e = Some t"
proof -
  assume det: "dict_eq el d e = Some t"
  show ?thesis
  proof (cases "fcard (fmdom d) \<noteq> fcard (fmdom e)")
    case True
    with det show ?thesis by (simp add: dict_eq_def)
  next
    case False
    let ?cmp = "\<lambda>el k. el (the (fmlookup d k)) (the (fmlookup e k))"
    from det False have all: "\<forall>k. k |\<in>| fmdom d |\<inter>| fmdom e \<longrightarrow> ?cmp el k \<noteq> None"
      by (auto simp: dict_eq_def Let_def split: if_splits)
    then have same: "\<forall>k. k |\<in>| fmdom d |\<inter>| fmdom e \<longrightarrow> ?cmp el' k = ?cmp el k"
      using assms by (metis not_None_eq)
    with det False all show ?thesis
      by (auto simp: dict_eq_def Let_def split: if_splits)
  qed
qed

lemma Statement_eq_mono:
  assumes "\<And>x y t. el x y = Some t \<Longrightarrow> el' x y = Some t"
  shows "Statement_eq el h a other = Some t \<Longrightarrow> Statement_eq el' h a other = Some t"
  using tuple_eq_mono [where el = el and el' = el', OF assms]
    dict_eq_mono [where el = el and el' = el', OF assms]
  by (cases other) (auto simp: Let_def split: if_splits option.splits)

lemma eq_mro_mono:
  assumes "\<And>x y t. el x y = Some t \<Longrightarrow> el' x y = Some t"
  shows "eq_mro el cs h a other = Some res \<Longrightarrow> eq_mro el' cs h a other = Some res"
proof (induction cs arbitrary: res)
  case Nil
  then show ?case by simp
next
  case (Cons c cs)
  then show ?case
    using Statement_eq_mono [where el = el and el' = el', OF assms, where h = h and a = a and other = other]
    by (auto simp: Comparable_eq_def Historical_eq_def Let_def
        split: if_splits option.splits prod.splits eq_result.splits)
qed

lemma equals_mono:
  assumes "\<And>x y t. el x y = Some t \<Longrightarrow> el' x y = Some t"
  shows "equals el h a other = Some res \<Longrightarrow> equals el' h a other = Some res"
  using eq_mro_mono [where el = el and el' = el', OF assms]
  by (cases other; cases res) (auto split: if_splits)

lemma nested_mono: "nested n h a other = Some t \<Longrightarrow> nested (Suc n) h a other = Some t"
proof (induction n arbitrary: a other t)
  case 0
  then show ?case by simp
next
  case (Suc n)
  have step: "\<And>x y t. py_eq (nested n h) x y = Some t \<Longrightarrow> py_eq (nested (Suc n) h) x y = Some t"
    using py_eq_mono(1) [where se = "nested n h" and se' = "nested (Suc n) h"] Suc.IH by blast
  from Suc.prems obtain t' h' where
    "equals (py_eq (nested n h)) h a other = Some (EqBool t', h')" and "t' = t"
    by (cases "equals (py_eq (nested n h)) h a other" rule: truth.cases) auto
  with equals_mono [where el = "py_eq (nested n h)" and el' = "py_eq (nested (Suc n) h)", OF step] have "equals (py_eq (nested (Suc n) h)) h a other = Some (EqBool t, h')"
    by blast
  then show ?case by simp
qed

lemma stmt_equals_mono:
  "stmt_equals n h a other = Some res \<Longrightarrow> stmt_equals (Suc n) h a other = Some res"
  unfolding stmt_equals_def value_eq_def
  using equals_mono [where el = "py_eq (nested n h)" and el' = "py_eq (nested (Suc n) h)"]
    py_eq_mono(1) [where se = "nested n h" and se' = "nested (Suc n) h"] nested_mono [of n h]
  by blast

text \<open>
  C3, as stated, fails: for a comparable statement \<open>a\<close> and a statement \<open>b\<close> that is not
  comparable, \<open>a == b\<close> is no boolean but a new statement, the copy of \<open>a\<close> with \<open>b\<close>
  under \<open>_eq_\<close>.
\<close>

theorem comparable_equals_builds_statement:
  "stmt_equals 1
     \<lparr>stmts = [\<lparr>stmt_class = from_func 3 ''count'' (\<lambda>ses as kw. Inr (ObsInt 2)) False True False,
                 args = [], kwargs = 0, period = None :: int option\<rparr>,
               \<lparr>stmt_class = from_func 4 ''flag'' (\<lambda>ses as kw. Inr (ObsBool True)) False False False,
                 args = [], kwargs = 1, period = None\<rparr>],
      dicts = [fmempty, fmempty]\<rparr> 0 (OStmt 1)
   = Some (EqStmt 2,
      \<lparr>stmts = [\<lparr>stmt_class = from_func 3 ''count'' (\<lambda>ses as kw. Inr (ObsInt 2)) False True False,
                 args = [], kwargs = 0, period = None\<rparr>,
               \<lparr>stmt_class = from_func 4 ''flag'' (\<lambda>ses as kw. Inr (ObsBool True)) False False False,
                 args = [], kwargs = 1, period = None\<rparr>,
               \<lparr>stmt_class = from_func 3 ''count'' (\<lambda>ses as kw. Inr (ObsInt 2)) False True False,
                 args = [], kwargs = 2, period = None\<rparr>],
       dicts = [fmempty, fmempty, fmupd ''_eq_'' (PStmt 1) fmempty]\<rparr>)"
  by (simp add: stmt_equals_def type_of_def from_func_def issubclass_def mro_def class_ids
      Comparable_eq_def set_comparison_def copy_def)

text \<open>
  C3, amended. Let \<open>a\<close> and \<open>b\<close> be statements such that \<open>b\<close> is comparable if
  \<open>a\<close> is, and \<open>a\<close> is comparable if \<open>b\<close> is and the class of \<open>b\<close> derives from
  the class of \<open>a\<close>. Then \<open>a == b\<close> is false if the two are of different classes; if
  they are of the same class, it is the boolean that holds iff their args are equal and
  their kwargs are equal (and, for a \<open>Historical\<close> class, their periods), where args
  and kwargs are compared value by value with \<open>==\<close>, statements held in them included,
  and \<open>a == b\<close> is a boolean whenever these comparisons are. The session is no argument
  of the comparison. Distinct classes never derive from one another both ways.
\<close>

theorem equality_is_structural:
  fixes h :: "'p heap" and a b :: nat
  defines "ca \<equiv> stmt_class (stmts h ! a)"
  defines "cb \<equiv> stmt_class (stmts h ! b)"
  assumes "statement_class ca" and "statement_class cb"
    and "issubclass ca (cls_id cb) \<Longrightarrow> issubclass cb (cls_id ca) \<Longrightarrow> cls_id ca = cls_id cb"
    and "issubclass ca Comparable_id \<Longrightarrow> issubclass cb Comparable_id"
    and "issubclass cb Comparable_id \<Longrightarrow> issubclass cb (cls_id ca) \<Longrightarrow> issubclass ca Comparable_id"
  shows "stmt_equals n h a (OStmt b) =
    (if cls_id ca = cls_id cb
     then (case (tuple_eq (value_eq n h) (args (stmts h ! a)) (args (stmts h ! b)),
                 dict_eq (value_eq n h) (dicts h ! kwargs (stmts h ! a))
                                        (dicts h ! kwargs (stmts h ! b))) of
             (Some same_args, Some same_kwargs) \<Rightarrow>
               Some (EqBool (same_args \<and> same_kwargs
                             \<and> (issubclass ca Historical_id
                                  \<longrightarrow> period (stmts h ! a) = period (stmts h ! b))), h)
           | _ \<Rightarrow> None)
     else Some (EqBool False, h))"
proof (cases "cls_id ca \<noteq> cls_id cb \<and> issubclass cb (cls_id ca)")
  case True
  then have "\<not> issubclass ca (cls_id cb)"
    using assms(5) by blast
  then have "Statement_eq (value_eq n h) h b (OStmt a) = Some False"
    by (simp add: type_of_def ca_def cb_def)
  moreover have "issubclass cb Comparable_id \<longrightarrow> isinstance h (OStmt a) Comparable_id"
    using True assms(7) by (simp add: ca_def)
  ultimately show ?thesis
    using True eq_method [OF assms(4), of "value_eq n h" h b "OStmt a"]
    by (auto simp: stmt_equals_def type_of_def ca_def cb_def)
next
  case False
  have self: "issubclass cb (cls_id cb)"
    by (simp add: issubclass_def mro_def)
  have "issubclass ca Comparable_id \<longrightarrow> isinstance h (OStmt b) Comparable_id"
    using assms(6) by (simp add: cb_def)
  then have eq: "stmt_equals n h a (OStmt b) =
      map_option (\<lambda>t. (EqBool (t \<and> (issubclass ca Historical_id \<longrightarrow> same_period h a (OStmt b))), h))
        (Statement_eq (value_eq n h) h a (OStmt b))"
    using False eq_method [OF assms(3), of "value_eq n h" h a "OStmt b"]
    by (auto simp: stmt_equals_def type_of_def ca_def cb_def)
  show ?thesis
  proof (cases "cls_id ca = cls_id cb")
    case True
    with self have "isinstance h (OStmt b) (type_of h a)"
      by (simp add: type_of_def ca_def cb_def)
    with True show ?thesis
      by (auto simp: eq Let_def split: option.splits)
  next
    case differ: False
    with False have "\<not> isinstance h (OStmt b) (type_of h a)"
      by (simp add: type_of_def ca_def cb_def)
    with differ show ?thesis
      by (simp add: eq Statement_eq_needs_instance)
  qed
qed


theorem equality_is_structural_witness:
  "statement_class (from_func 4 ''after'' (\<lambda>ses as kw. Inr (ObsBool True)) False False False)
   \<and> stmt_equals (Suc 0)
       \<lparr>stmts = [\<lparr>stmt_class = from_func 3 ''ready'' (\<lambda>ses as kw. Inr (ObsBool True)) False False False,
                   args = [PInt 1], kwargs = 0, period = None :: int option\<rparr>,
                 \<lparr>stmt_class = from_func 3 ''ready'' (\<lambda>ses as kw. Inr (ObsBool True)) False False False,
                   args = [PBool True], kwargs = 1, period = None\<rparr>,
                 \<lparr>stmt_class = from_func 4 ''after'' (\<lambda>ses as kw. Inr (ObsBool True)) False False False,
                   args = [], kwargs = 2, period = None\<rparr>,
                 \<lparr>stmt_class = from_func 4 ''after'' (\<lambda>ses as kw. Inr (ObsBool True)) False False False,
                   args = [], kwargs = 3, period = None\<rparr>],
        dicts = [fmempty, fmempty, fmupd ''dep'' (PStmt 0) fmempty, fmupd ''dep'' (PStmt 1) fmempty]\<rparr>
       2 (OStmt 3)
     = Some (EqBool True,
       \<lparr>stmts = [\<lparr>stmt_class = from_func 3 ''ready'' (\<lambda>ses as kw. Inr (ObsBool True)) False False False,
                   args = [PInt 1], kwargs = 0, period = None\<rparr>,
                 \<lparr>stmt_class = from_func 3 ''ready'' (\<lambda>ses as kw. Inr (ObsBool True)) False False False,
                   args = [PBool True], kwargs = 1, period = None\<rparr>,
                 \<lparr>stmt_class = from_func 4 ''after'' (\<lambda>ses as kw. Inr (ObsBool True)) False False False,
                   args = [], kwargs = 2, period = None\<rparr>,
                 \<lparr>stmt_class = from_func 4 ''after'' (\<lambda>ses as kw. Inr (ObsBool True)) False False False,
                   args = [], kwargs = 3, period = None\<rparr>],
        dicts = [fmempty, fmempty, fmupd ''dep'' (PStmt 0) fmempty, fmupd ''dep'' (PStmt 1) fmempty]\<rparr>)"
proof -
  let ?t = "from_func 3 ''ready'' (\<lambda>ses as kw. Inr (ObsBool True)) False False False"
  let ?o = "from_func 4 ''after'' (\<lambda>ses as kw. Inr (ObsBool True)) False False False"
  let ?h = "\<lparr>stmts = [\<lparr>stmt_class = ?t, args = [PInt 1], kwargs = 0, period = None :: int option\<rparr>,
                      \<lparr>stmt_class = ?t, args = [PBool True], kwargs = 1, period = None\<rparr>,
                      \<lparr>stmt_class = ?o, args = [], kwargs = 2, period = None\<rparr>,
                      \<lparr>stmt_class = ?o, args = [], kwargs = 3, period = None\<rparr>],
             dicts = [fmempty, fmempty, fmupd ''dep'' (PStmt 0) fmempty,
                      fmupd ''dep'' (PStmt 1) fmempty]\<rparr>"
  have cls: "statement_class ?o"
    by (simp add: statement_class_def from_func_def mro_def class_ids)
  have plain: "\<not> issubclass ?o Comparable_id"
    by (simp add: issubclass_def from_func_def mro_def class_ids)
  have inner: "value_eq (Suc 0) ?h (PStmt 0) (PStmt 1) = Some True"
    by (simp add: value_eq_def type_of_def from_func_def issubclass_def mro_def class_ids
        dict_eq_def int_of_bool_def)
  have kwargs: "dict_eq (value_eq (Suc 0) ?h) (fmupd ''dep'' (PStmt 0) fmempty)
                  (fmupd ''dep'' (PStmt 1) fmempty) = Some True"
    using inner by (simp add: dict_eq_def)
  have "stmt_equals (Suc 0) ?h 2 (OStmt 3) =
    (if cls_id (stmt_class (stmts ?h ! 2)) = cls_id (stmt_class (stmts ?h ! 3))
     then (case (tuple_eq (value_eq (Suc 0) ?h) (args (stmts ?h ! 2)) (args (stmts ?h ! 3)),
                 dict_eq (value_eq (Suc 0) ?h) (dicts ?h ! kwargs (stmts ?h ! 2))
                                               (dicts ?h ! kwargs (stmts ?h ! 3))) of
             (Some same_args, Some same_kwargs) \<Rightarrow>
               Some (EqBool (same_args \<and> same_kwargs
                             \<and> (issubclass (stmt_class (stmts ?h ! 2)) Historical_id
                                  \<longrightarrow> period (stmts ?h ! 2) = period (stmts ?h ! 3))), ?h)
           | _ \<Rightarrow> None)
     else Some (EqBool False, ?h))"
    by (rule equality_is_structural) (use cls plain in simp_all)
  with cls kwargs show ?thesis
    by simp
qed


end
